theory Spec2Isabelle
  imports Main "HOL-Library.Sublist"
begin

section \<open>JavaScript values as the audit helper observes them\<close>

text \<open>
  The functions of \<^verbatim>\<open>addon-test-support/audit.ts\<close> inspect their arguments
  dynamically: with \<^verbatim>\<open>typeof\<close>, \<^verbatim>\<open>Array.isArray\<close>, \<^verbatim>\<open>instanceof\<close>, a
  property read and a truthiness test. The datatype below has one constructor per shape
  these tests tell apart.

  \<^item> \<open>JNumber\<close> and \<open>JNaN\<close> stand for numbers; the program only observes their type tag and
    whether they are falsy (zero or NaN).
  \<^item> \<open>JNode\<close> and \<open>JNodeList\<close> are the values for which the source's tests
    \<^verbatim>\<open>self.Node && potential instanceof self.Node\<close> and
    \<^verbatim>\<open>self.NodeList && potential instanceof self.NodeList\<close> are true; their payload is
    an opaque identity.
  \<^item> \<open>JObject\<close> is any other object, given by its readable data properties in order (an
    absent property reads as \<open>undefined\<close>). Accessor properties and proxies are not
    modelled.
\<close>

datatype jsval =
    JUndefined
  | JNull
  | JBoolean bool
  | JNumber int
  | JNaN
  | JString string
  | JSymbol string
  | JBigInt int
  | JFunction nat
  | JArray "jsval list"
  | JNode nat
  | JNodeList nat
  | JObject "(string \<times> jsval) list"

datatype jstype =
  TUndefined | TObject | TBoolean | TNumber | TString | TSymbol | TBigint | TFunction

text \<open>Values that can be thrown or can reject a promise.\<close>

datatype js_error =
    TypeError                \<comment> \<open>reading a property of \<open>null\<close> or \<open>undefined\<close>\<close>
  | ErrorMessage string      \<comment> \<open>\<^verbatim>\<open>new Error(message)\<close>\<close>
  | Raised jsval             \<comment> \<open>a value handed over by an external collaborator\<close>

text \<open>The \<^verbatim>\<open>typeof\<close> operator; \<open>null\<close>, arrays and DOM objects all answer \<open>object\<close>.\<close>

fun typeof :: "jsval \<Rightarrow> jstype" where
  "typeof JUndefined = TUndefined"
| "typeof JNull = TObject"
| "typeof (JBoolean b) = TBoolean"
| "typeof (JNumber n) = TNumber"
| "typeof JNaN = TNumber"
| "typeof (JString s) = TString"
| "typeof (JSymbol s) = TSymbol"
| "typeof (JBigInt n) = TBigint"
| "typeof (JFunction f) = TFunction"
| "typeof (JArray xs) = TObject"
| "typeof (JNode n) = TObject"
| "typeof (JNodeList n) = TObject"
| "typeof (JObject ps) = TObject"

fun Array_isArray :: "jsval \<Rightarrow> bool" where
  "Array_isArray (JArray xs) = True"
| "Array_isArray v = False"

fun instanceof_Node :: "jsval \<Rightarrow> bool" where
  "instanceof_Node (JNode n) = True"
| "instanceof_Node v = False"

fun instanceof_NodeList :: "jsval \<Rightarrow> bool" where
  "instanceof_NodeList (JNodeList n) = True"
| "instanceof_NodeList v = False"

text \<open>
  A property read \<^verbatim>\<open>v.name\<close>. On \<open>null\<close> and \<open>undefined\<close> it throws a
  \<^verbatim>\<open>TypeError\<close>. The program reaches a property read only for values whose
  \<^verbatim>\<open>typeof\<close> is \<open>object\<close> and that are neither arrays nor DOM objects, so the own
  properties of the remaining shapes are not modelled.
\<close>

fun get_prop :: "jsval \<Rightarrow> string \<Rightarrow> js_error + jsval" where
  "get_prop JUndefined name = Inl TypeError"
| "get_prop JNull name = Inl TypeError"
| "get_prop (JObject ps) name =
     Inr (case map_of ps name of None \<Rightarrow> JUndefined | Some v \<Rightarrow> v)"
| "get_prop v name = Inr JUndefined"

text \<open>JavaScript truthiness, as used by \<^verbatim>\<open>!error\<close> and by \<^verbatim>\<open>||\<close>.\<close>

fun truthy :: "jsval \<Rightarrow> bool" where
  "truthy JUndefined = False"
| "truthy JNull = False"
| "truthy (JBoolean b) = b"
| "truthy (JNumber n) = (n \<noteq> 0)"
| "truthy JNaN = False"
| "truthy (JString s) = (s \<noteq> [])"
| "truthy (JBigInt n) = (n \<noteq> 0)"
| "truthy v = True"

section \<open>The parameter normalizer\<close>

text \<open>
  \<^verbatim>\<open>_isContext\<close> (audit.ts, lines 48 to 67). The \<^verbatim>\<open>switch (true)\<close> takes the first
  case whose expression is \<open>true\<close>, top to bottom; the two property reads come last and
  throw when \<open>potential\<close> is \<open>null\<close>.
\<close>

definition isContext :: "jsval \<Rightarrow> js_error + bool" where
  "isContext potential =
     (if typeof potential = TString then Inr True
      else if Array_isArray potential then Inr True
      else if instanceof_Node potential then Inr True
      else if instanceof_NodeList potential then Inr True
      else if typeof potential \<noteq> TObject then Inr False
      else (case get_prop potential ''include'' of
              Inl e \<Rightarrow> Inl e
            | Inr inc \<Rightarrow>
                if inc \<noteq> JUndefined then Inr True
                else (case get_prop potential ''exclude'' of
                        Inl e \<Rightarrow> Inl e
                      | Inr exc \<Rightarrow>
                          if exc \<noteq> JUndefined then Inr True else Inr False)))"

definition default_selector :: string where
  "default_selector = ''#ember-testing-container''"

text \<open>
  \<^verbatim>\<open>_normalizeRunParams\<close> (lines 77 to 97) in its two steps. The first step
  (lines 84 to 90) decides which argument is the context and which the options.
\<close>

definition normalizeRunParams_resolve :: "jsval \<Rightarrow> jsval \<Rightarrow> js_error + (jsval \<times> jsval)" where
  "normalizeRunParams_resolve elementContext runOptions =
     (case isContext elementContext of
        Inl e \<Rightarrow> Inl e
      | Inr is_ctx \<Rightarrow>
          if \<not> is_ctx then Inr (JString default_selector, elementContext)
          else Inr (elementContext, runOptions))"

text \<open>
  The second step (lines 92 to 94): \<^verbatim>\<open>options = getRunOptions() || {}\<close> when
  \<^verbatim>\<open>typeof options !== 'object'\<close>. The module \<^verbatim>\<open>run-options\<close> is not part of the
  sources at hand, so the value that \<^verbatim>\<open>getRunOptions()\<close> returns is the parameter
  \<open>registered\<close> (\<open>JUndefined\<close> when nothing is registered).
\<close>

definition normalizeRunParams_default :: "jsval \<Rightarrow> jsval \<Rightarrow> jsval" where
  "normalizeRunParams_default registered options =
     (if typeof options \<noteq> TObject
      then (if truthy registered then registered else JObject [])
      else options)"

definition normalizeRunParams :: "jsval \<Rightarrow> jsval \<Rightarrow> jsval \<Rightarrow> js_error + (jsval \<times> jsval)" where
  "normalizeRunParams registered elementContext runOptions =
     (case normalizeRunParams_resolve elementContext runOptions of
        Inl e \<Rightarrow> Inl e
      | Inr (context, options) \<Rightarrow>
          Inr (context, normalizeRunParams_default registered options))"

text \<open>
  The shapes the specification lists as context descriptors: a string, an array, a DOM
  node, a DOM node-list, or an object whose \<open>include\<close> or \<open>exclude\<close> property is defined.
\<close>

fun has_defined_key :: "(string \<times> jsval) list \<Rightarrow> string \<Rightarrow> bool" where
  "has_defined_key ps name =
     (case map_of ps name of None \<Rightarrow> False | Some v \<Rightarrow> v \<noteq> JUndefined)"

fun context_shape :: "jsval \<Rightarrow> bool" where
  "context_shape (JString s) = True"
| "context_shape (JArray xs) = True"
| "context_shape (JNode n) = True"
| "context_shape (JNodeList n) = True"
| "context_shape (JObject ps) =
     (has_defined_key ps ''include'' \<or> has_defined_key ps ''exclude'')"
| "context_shape v = False"

text \<open>A plain mapping: an object that is neither \<open>null\<close>, an array nor a DOM object.\<close>

fun plain_mapping :: "jsval \<Rightarrow> bool" where
  "plain_mapping (JObject ps) = True"
| "plain_mapping v = False"

text \<open>
  An object as the specification speaks of one: a value whose \<^verbatim>\<open>typeof\<close> is
  \<open>object\<close> and that is not \<open>null\<close>.
\<close>

definition is_object :: "jsval \<Rightarrow> bool" where
  "is_object v = (typeof v = TObject \<and> v \<noteq> JNull)"

section \<open>The result translator\<close>

text \<open>
  The part of axe-core's result that the translator reads: a result has a sequence of
  violations, a violation has a sequence of affected nodes, and a node carries its
  serialized markup. The other fields are only seen by the violation formatter.
\<close>

record node_result =
  html :: string
  target :: "string list"

record violation =
  rule_id :: string
  impact :: string
  help_text :: string
  helpUrl :: string
  nodes :: "node_result list"

record axe_results =
  violations :: "violation list"
  passes :: "violation list"

text \<open>\<^verbatim>\<open>Array.prototype.join\<close> on an array of strings.\<close>

fun join :: "string \<Rightarrow> string list \<Rightarrow> string" where
  "join sep [] = []"
| "join sep [x] = x"
| "join sep (x # y # ys) = x @ sep @ join sep (y # ys)"

text \<open>
  \<^verbatim>\<open>processAxeResults\<close> (lines 22 to 38). The violation formatter
  (\<^verbatim>\<open>format-violation\<close>) and the identifier of the running test
  (\<^verbatim>\<open>QUnit.config.current.testId\<close>) come from outside the sources at hand and are the
  parameters \<open>formatViolation\<close> and \<open>testId\<close>. The template literal has a line break
  after \<^verbatim>\<open>Violations:\<close> (the escape) and one before \<^verbatim>\<open>To rerun\<close> (the literal
  line break of the source).
\<close>

definition processAxeResults ::
  "(violation \<Rightarrow> string list \<Rightarrow> string) \<Rightarrow> string \<Rightarrow> axe_results \<Rightarrow> js_error + unit" where
  "processAxeResults formatViolation testId results =
     (let vs = violations results in
      if length vs \<noteq> 0 then
        (let allViolations =
               map (\<lambda>violation.
                      let violationNodes = map html (nodes violation)
                      in formatViolation violation violationNodes) vs;
             allViolationMessages = join [CHR 0x0A] allViolations
         in Inl (ErrorMessage
              (''The page should have no accessibility violations. Violations:''
               @ [CHR 0x0A] @ allViolationMessages @ [CHR 0x0A]
               @ ''To rerun this specific failure, use the following query params: &''
               @ testId @ ''&enableA11yAudit=true'')))
      else Inr ())"

section \<open>The audit invoker\<close>

text \<open>
  The state the invoker acts on: the class list of \<^verbatim>\<open>document.body\<close> and the calls
  made so far, in order. \<open>EngineRun\<close> records the arguments of \<^verbatim>\<open>run\<close> and the class
  list of the body at the moment of the call.
\<close>

datatype event =
    Mark string
  | ClassListAdd string
  | EngineRun jsval jsval "string list"
  | ProcessAxeResults axe_results
  | ClassListRemove string
  | MarkEndAndMeasure string string string

record world =
  classList :: "string list"
  calls :: "event list"

text \<open>
  Modelled from the spec: the timing collaborator \<^verbatim>\<open>performance.ts\<close> is not part of
  the sources at hand. \<^verbatim>\<open>mark(name)\<close> records a named instant and
  \<^verbatim>\<open>markEndAndMeasure(measureName, startMark, endMark)\<close> records the end instant and
  the duration; both are best-effort and never fail.
\<close>

definition mark :: "string \<Rightarrow> world \<Rightarrow> world" where
  "mark name w = w\<lparr>calls := calls w @ [Mark name]\<rparr>"

definition markEndAndMeasure :: "string \<Rightarrow> string \<Rightarrow> string \<Rightarrow> world \<Rightarrow> world" where
  "markEndAndMeasure measureName startMark endMark w =
     w\<lparr>calls := calls w @ [MarkEndAndMeasure measureName startMark endMark]\<rparr>"

text \<open>
  \<^verbatim>\<open>document.body.classList.add\<close> and \<^verbatim>\<open>remove\<close>: a token list holds a token
  at most once; adding a token already present changes nothing.
\<close>

definition classList_add :: "string \<Rightarrow> world \<Rightarrow> world" where
  "classList_add token w =
     w\<lparr>classList := (if token \<in> set (classList w) then classList w
                       else classList w @ [token]),
       calls := calls w @ [ClassListAdd token]\<rparr>"

definition classList_remove :: "string \<Rightarrow> world \<Rightarrow> world" where
  "classList_remove token w =
     w\<lparr>classList := removeAll token (classList w),
       calls := calls w @ [ClassListRemove token]\<rparr>"

text \<open>
  The audit engine \<^verbatim>\<open>run(context, options, callback)\<close> is external. What it does with
  its callback is a parameter: it calls \<^verbatim>\<open>callback(error, result)\<close>, or throws inside
  the promise's executor, or never calls back. The result has the type the callback
  declares (\<^verbatim>\<open>AxeResults\<close>); it is not read when the error is truthy.
\<close>

datatype engine_behaviour =
    Callback jsval axe_results
  | Throws jsval
  | NeverCallsBack

datatype 'a promise = Fulfilled 'a | Rejected js_error | Pending

text \<open>
  \<^verbatim>\<open>new Promise((resolve, reject) => run(context, options, (error, result) => ...))\<close>
  (lines 117 to 125): resolved with the result when \<^verbatim>\<open>!error\<close>, rejected with the
  error otherwise; an exception of the executor rejects the promise.
\<close>

definition new_Promise :: "engine_behaviour \<Rightarrow> axe_results promise" where
  "new_Promise behaviour =
     (case behaviour of
        Callback error result \<Rightarrow>
          if \<not> truthy error then Fulfilled result else Rejected (Raised error)
      | Throws e \<Rightarrow> Rejected (Raised e)
      | NeverCallsBack \<Rightarrow> Pending)"

text \<open>
  \<^verbatim>\<open>.then(f)\<close> runs \<open>f\<close> on the value of a fulfilled promise only, and an exception of
  \<open>f\<close> rejects the new promise. \<^verbatim>\<open>.finally(g)\<close> runs \<open>g\<close> once the promise has settled,
  either way, and keeps the outcome; the new promise settles after \<open>g\<close> has run.
\<close>

definition promise_then ::
  "('a \<Rightarrow> world \<Rightarrow> (js_error + 'b) \<times> world) \<Rightarrow> 'a promise \<Rightarrow> world \<Rightarrow> 'b promise \<times> world" where
  "promise_then f p w =
     (case p of
        Fulfilled v \<Rightarrow>
          (case f v w of
             (Inl e, w') \<Rightarrow> (Rejected e, w')
           | (Inr u, w') \<Rightarrow> (Fulfilled u, w'))
      | Rejected e \<Rightarrow> (Rejected e, w)
      | Pending \<Rightarrow> (Pending, w))"

definition promise_finally ::
  "(world \<Rightarrow> world) \<Rightarrow> 'a promise \<Rightarrow> world \<Rightarrow> 'a promise \<times> world" where
  "promise_finally g p w =
     (case p of
        Fulfilled v \<Rightarrow> (Fulfilled v, g w)
      | Rejected e \<Rightarrow> (Rejected e, g w)
      | Pending \<Rightarrow> (Pending, w))"

text \<open>
  \<^verbatim>\<open>a11yAudit\<close> (lines 107 to 131). The default of the first parameter applies when
  the argument is \<open>undefined\<close>. An exception of the normalizer leaves the function before a
  promise exists (\<open>Inl\<close>); otherwise the result is the promise returned by
  \<^verbatim>\<open>.finally\<close>, together with the state in which that promise has settled (or, when
  the engine never calls back, the state in which it stays pending). The log entries
  \<open>EngineRun\<close> and \<open>ProcessAxeResults\<close> mark the call of the engine and the call of the
  translator by \<^verbatim>\<open>.then\<close>.
\<close>

definition a11yAudit ::
  "(violation \<Rightarrow> string list \<Rightarrow> string) \<Rightarrow> string \<Rightarrow> jsval
     \<Rightarrow> (jsval \<Rightarrow> jsval \<Rightarrow> engine_behaviour)
     \<Rightarrow> jsval \<Rightarrow> jsval \<Rightarrow> world \<Rightarrow> (js_error + unit promise) \<times> world" where
  "a11yAudit formatViolation testId registered run contextSelector axeOptions w0 =
     (let contextSelector' =
            (if contextSelector = JUndefined then JString default_selector
             else contextSelector);
          w1 = mark ''a11y_audit_start'' w0
      in case normalizeRunParams registered contextSelector' axeOptions of
           Inl e \<Rightarrow> (Inl e, w1)
         | Inr (context, options) \<Rightarrow>
             (let w2 = classList_add ''axe-running'' w1;
                  w3 = w2\<lparr>calls := calls w2 @ [EngineRun context options (classList w2)]\<rparr>;
                  p1 = new_Promise (run context options);
                  (p2, w4) =
                    promise_then
                      (\<lambda>result w. (processAxeResults formatViolation testId result,
                                    w\<lparr>calls := calls w @ [ProcessAxeResults result]\<rparr>))
                      p1 w3;
                  (p3, w5) =
                    promise_finally
                      (\<lambda>w. markEndAndMeasure ''a11y_audit'' ''a11y_audit_start''
                              ''a11y_audit_end'' (classList_remove ''axe-running'' w))
                      p2 w4
              in (Inr p3, w5)))"

section \<open>Sample inputs\<close>

text \<open>Concrete collaborators and data on which the theorems below are evaluated.\<close>

definition sample_format :: "violation \<Rightarrow> string list \<Rightarrow> string" where
  "sample_format v markup = ''['' @ impact v @ '']: '' @ help_text v @ '' '' @ join '','' markup"

definition sample_violation :: violation where
  "sample_violation =
     \<lparr>rule_id = ''image-alt'', impact = ''critical'', help_text = ''Images must have alt text'',
      helpUrl = ''https://example.test/image-alt'',
      nodes = [\<lparr>html = ''<img>'', target = [''img'']\<rparr>,
               \<lparr>html = ''<img id=x>'', target = [''#x'']\<rparr>]\<rparr>"

definition clean_results :: axe_results where
  "clean_results = \<lparr>violations = [], passes = [sample_violation]\<rparr>"

definition label_violation :: violation where
  "label_violation =
     \<lparr>rule_id = ''label'', impact = ''serious'', help_text = ''Form elements must have labels'',
      helpUrl = ''https://example.test/label'',
      nodes = [\<lparr>html = ''<input>'', target = [''input'']\<rparr>]\<rparr>"

definition failing_results :: axe_results where
  "failing_results = \<lparr>violations = [sample_violation, label_violation], passes = []\<rparr>"

definition engine_always :: "engine_behaviour \<Rightarrow> jsval \<Rightarrow> jsval \<Rightarrow> engine_behaviour" where
  "engine_always behaviour context options = behaviour"

definition engine_failure :: jsval where
  "engine_failure = JObject [(''message'', JString ''axe is already running'')]"

definition idle_world :: world where
  "idle_world = \<lparr>classList = [''ember-application''], calls = []\<rparr>"


text \<open>
  Five runs of the invoker in a test with identifier \<^verbatim>\<open>a1b2\<close> and nothing registered:
  without arguments on a page without violations, on a page with two violations, and
  with an engine that reports an error; with a selector and \<open>null\<close> as options; and
  with \<open>null\<close> as first argument.
\<close>

definition audit_clean :: "(js_error + unit promise) \<times> world" where
  "audit_clean =
     a11yAudit sample_format ''a1b2'' JUndefined (engine_always (Callback JNull clean_results))
       JUndefined JUndefined idle_world"


definition audit_engine_error :: "(js_error + unit promise) \<times> world" where
  "audit_engine_error =
     a11yAudit sample_format ''a1b2'' JUndefined
       (engine_always (Callback engine_failure clean_results))
       JUndefined JUndefined idle_world"

definition audit_null_options :: "(js_error + unit promise) \<times> world" where
  "audit_null_options =
     a11yAudit sample_format ''a1b2'' JUndefined (engine_always (Callback JNull clean_results))
       (JString ''#main'') JNull idle_world"


section \<open>Classification\<close>

lemma isContext_Null: "isContext JNull = Inl TypeError"
  by (simp add: isContext_def)

lemma isContext_shape: "v \<noteq> JNull \<Longrightarrow> isContext v = Inr (context_shape v)"
  by (cases v) (auto simp: isContext_def split: option.splits)

text \<open>
  Claim C1, as stated, says that every value outside the listed shapes is classified as
  an options mapping. The value \<open>null\<close> is outside the listed shapes, and classifying it
  does not answer at all: the read of \<open>null.include\<close> throws.
\<close>

theorem C1_null_not_classified:
  "\<not> context_shape JNull \<and> isContext JNull \<noteq> Inr False \<and> isContext JNull = Inl TypeError"
  by (simp add: isContext_def)

text \<open>
  Claim C1, amended: for every first argument other than \<open>null\<close>, \<^verbatim>\<open>_isContext\<close>
  answers, and answers \<open>true\<close> (context descriptor) exactly when the argument is a
  string, an array, a DOM node, a DOM node-list, or an object whose \<open>include\<close> or
  \<open>exclude\<close> property is defined; every other value except \<open>null\<close> is answered \<open>false\<close>
  (options mapping). For \<open>null\<close> it throws a \<^verbatim>\<open>TypeError\<close>.
\<close>

theorem C1_isContext_classifies:
  "isContext v = (if v = JNull then Inl TypeError else Inr (context_shape v))"
  using isContext_Null isContext_shape by simp

theorem C1_isContext_classifies_witness:
  "isContext (JObject [(''include'', JArray [JString ''.foo''])]) = Inr True
   \<and> isContext (JObject [(''rules'', JObject [])]) = Inr False
   \<and> isContext (JObject [(''include'', JUndefined)]) = Inr False
   \<and> isContext JUndefined = Inr False
   \<and> isContext (JNumber 3) = Inr False
   \<and> isContext (JString ''#main'') = Inr True
   \<and> isContext (JNode 0) = Inr True
   \<and> isContext JNull = Inl TypeError"
  using C1_isContext_classifies [of "JObject [(''include'', JArray [JString ''.foo''])]"]
        C1_isContext_classifies [of "JObject [(''rules'', JObject [])]"]
        C1_isContext_classifies [of "JObject [(''include'', JUndefined)]"]
        C1_isContext_classifies [of JUndefined]
        C1_isContext_classifies [of "JNumber 3"]
        C1_isContext_classifies [of "JString ''#main''"]
        C1_isContext_classifies [of "JNode 0"]
        C1_isContext_classifies [of JNull]
  by simp

section \<open>Normalization\<close>

lemma isContext_JString: "isContext (JString s) = Inr True"
  by (simp add: isContext_def)

lemma resolve_context:
  "isContext a = Inr True \<Longrightarrow> normalizeRunParams_resolve a b = Inr (a, b)"
  by (simp add: normalizeRunParams_resolve_def)

lemma resolve_cases:
  assumes "normalizeRunParams_resolve a b = Inr (c, opts)"
  shows "(isContext a = Inr True \<and> c = a \<and> opts = b)
         \<or> (isContext a = Inr False \<and> c = JString default_selector \<and> opts = a)"
  using assms
  by (auto simp: normalizeRunParams_resolve_def split: sum.splits if_splits)

lemma resolve_gives_context:
  "normalizeRunParams_resolve a b = Inr (c, opts) \<Longrightarrow> isContext c = Inr True"
  using resolve_cases isContext_JString by metis

lemma normalize_cases:
  assumes "normalizeRunParams reg a b = Inr (c, opts)"
  shows "\<exists>opts0. normalizeRunParams_resolve a b = Inr (c, opts0)
           \<and> opts = normalizeRunParams_default reg opts0"
  using assms
  by (auto simp: normalizeRunParams_def split: sum.splits prod.splits)

lemma default_idem:
  "normalizeRunParams_default reg (normalizeRunParams_default reg opts)
     = normalizeRunParams_default reg opts"
  by (simp add: normalizeRunParams_default_def)

lemma default_not_undefined: "normalizeRunParams_default reg opts \<noteq> JUndefined"
  by (cases reg; cases opts) (auto simp: normalizeRunParams_default_def)

text \<open>
  Claim C2, as stated, promises for every pair of arguments that the first argument comes
  back as context with the second as options, or else the fixed selector with the first
  argument as options. With \<open>null\<close> as first argument (which is not classified as a
  context) nothing comes back: the call throws. And the options that come back are the
  chosen argument only after the default step of lines 92 to 94: with the second argument
  \<open>undefined\<close> the empty mapping is returned.
\<close>

theorem C2_not_for_every_pair:
  "isContext JNull \<noteq> Inr True
   \<and> normalizeRunParams JUndefined JNull (JObject []) = Inl TypeError
   \<and> normalizeRunParams JUndefined (JString ''#main'') JUndefined
       = Inr (JString ''#main'', JObject [])"
  by (simp add: isContext_def normalizeRunParams_def normalizeRunParams_resolve_def
        normalizeRunParams_default_def)

text \<open>
  Claim C2, amended: for every pair of arguments whose first argument is not \<open>null\<close>,
  \<^verbatim>\<open>_normalizeRunParams\<close> takes (lines 84 to 90) the first argument as context and the
  second as options when the first is classified as a context, and otherwise the fixed
  selector \<^verbatim>\<open>#ember-testing-container\<close> as context and the first argument as options;
  it returns that context, and those options after the default step of lines 92 to 94.
\<close>

theorem C2_normalizeRunParams_resolves:
  assumes "a \<noteq> JNull"
  shows "(isContext a = Inr True \<longrightarrow>
            normalizeRunParams_resolve a b = Inr (a, b)
            \<and> normalizeRunParams reg a b = Inr (a, normalizeRunParams_default reg b))
       \<and> (isContext a \<noteq> Inr True \<longrightarrow>
            normalizeRunParams_resolve a b = Inr (JString ''#ember-testing-container'', a)
            \<and> normalizeRunParams reg a b
                = Inr (JString ''#ember-testing-container'', normalizeRunParams_default reg a))"
proof -
  from assms have "isContext a = Inr (context_shape a)" by (rule isContext_shape)
  then show ?thesis
    by (cases "context_shape a")
       (simp_all add: normalizeRunParams_def normalizeRunParams_resolve_def default_selector_def)
qed

theorem C2_normalizeRunParams_resolves_witness:
  "normalizeRunParams JUndefined (JObject [(''include'', JArray [JString ''.foo''])])
       (JObject [(''runOnly'', JArray [JString ''wcag2a''])])
     = Inr (JObject [(''include'', JArray [JString ''.foo''])],
            JObject [(''runOnly'', JArray [JString ''wcag2a''])])
   \<and> normalizeRunParams JUndefined (JObject [(''rules'', JObject [])]) JUndefined
     = Inr (JString ''#ember-testing-container'', JObject [(''rules'', JObject [])])"
  using C2_normalizeRunParams_resolves
          [of "JObject [(''include'', JArray [JString ''.foo''])]"
              "JObject [(''runOnly'', JArray [JString ''wcag2a''])]" JUndefined]
        C2_normalizeRunParams_resolves
          [of "JObject [(''rules'', JObject [])]" JUndefined JUndefined]
  by (simp add: isContext_def normalizeRunParams_default_def)

text \<open>
  Claim C3, as stated, says that options that are not an object are replaced by the
  registered default or the empty mapping. The value \<open>null\<close> is not an object, and it is
  not replaced: \<^verbatim>\<open>typeof null\<close> is \<open>object\<close>, so with a selector and \<open>null\<close> as
  arguments \<open>null\<close> is returned as options, whether or not a default is registered.
\<close>

theorem C3_null_options_not_replaced:
  "\<not> is_object JNull
   \<and> normalizeRunParams_resolve (JString ''#main'') JNull = Inr (JString ''#main'', JNull)
   \<and> normalizeRunParams JUndefined (JString ''#main'') JNull = Inr (JString ''#main'', JNull)
   \<and> normalizeRunParams (JObject [(''runOnly'', JString ''wcag2a'')]) (JString ''#main'') JNull
       = Inr (JString ''#main'', JNull)"
  by (simp add: is_object_def isContext_def normalizeRunParams_def
        normalizeRunParams_resolve_def normalizeRunParams_default_def)

text \<open>
  Claim C3, amended: whenever the options chosen by \<^verbatim>\<open>_normalizeRunParams\<close> are neither
  an object nor \<open>null\<close> (that is, \<^verbatim>\<open>typeof options !== 'object'\<close>, which includes
  \<open>undefined\<close>), the returned options are \<^verbatim>\<open>getRunOptions() || {}\<close>: the registered
  default options, or the empty mapping when none is registered; options that are objects
  are returned unchanged, and so is \<open>null\<close>.
\<close>

theorem C3_default_options:
  assumes "normalizeRunParams_resolve a b = Inr (c, opts)"
  shows "(typeof opts \<noteq> TObject \<longrightarrow>
            normalizeRunParams reg a b = Inr (c, if truthy reg then reg else JObject []))
       \<and> (typeof opts \<noteq> TObject \<and> reg = JUndefined \<longrightarrow>
            normalizeRunParams reg a b = Inr (c, JObject []))
       \<and> (typeof opts \<noteq> TObject \<and> (\<exists>ps. reg = JObject ps) \<longrightarrow>
            normalizeRunParams reg a b = Inr (c, reg))
       \<and> (typeof opts = TObject \<longrightarrow> normalizeRunParams reg a b = Inr (c, opts))
       \<and> (\<not> is_object opts \<and> opts \<noteq> JNull \<longrightarrow>
            normalizeRunParams reg a b = Inr (c, if truthy reg then reg else JObject []))
       \<and> (is_object opts \<longrightarrow> normalizeRunParams reg a b = Inr (c, opts))
       \<and> (opts = JNull \<longrightarrow> normalizeRunParams reg a b = Inr (c, JNull))"
  using assms
  by (auto simp: normalizeRunParams_def normalizeRunParams_default_def is_object_def)

theorem C3_default_options_witness:
  "normalizeRunParams JUndefined JUndefined JUndefined
     = Inr (JString ''#ember-testing-container'', JObject [])
   \<and> normalizeRunParams (JObject [(''runOnly'', JString ''wcag2a'')]) (JString ''#main'')
       (JNumber 7)
     = Inr (JString ''#main'', JObject [(''runOnly'', JString ''wcag2a'')])
   \<and> normalizeRunParams (JObject [(''runOnly'', JString ''wcag2a'')]) (JString ''#main'')
       (JObject [(''rules'', JObject [])])
     = Inr (JString ''#main'', JObject [(''rules'', JObject [])])
   \<and> normalizeRunParams (JObject [(''runOnly'', JString ''wcag2a'')]) (JString ''#ctx'') JNull
     = Inr (JString ''#ctx'', JNull)"
proof -
  have r1: "normalizeRunParams_resolve JUndefined JUndefined
              = Inr (JString ''#ember-testing-container'', JUndefined)"
    by (simp add: normalizeRunParams_resolve_def isContext_def default_selector_def)
  have r2: "normalizeRunParams_resolve (JString ''#main'') (JNumber 7)
              = Inr (JString ''#main'', JNumber 7)"
    by (simp add: normalizeRunParams_resolve_def isContext_def)
  have r3: "normalizeRunParams_resolve (JString ''#main'') (JObject [(''rules'', JObject [])])
              = Inr (JString ''#main'', JObject [(''rules'', JObject [])])"
    by (simp add: normalizeRunParams_resolve_def isContext_def)
  have r4: "normalizeRunParams_resolve (JString ''#ctx'') JNull
              = Inr (JString ''#ctx'', JNull)"
    by (simp add: normalizeRunParams_resolve_def isContext_def)
  show ?thesis
    using C3_default_options [OF r1, of JUndefined]
          C3_default_options [OF r2, of "JObject [(''runOnly'', JString ''wcag2a'')]"]
          C3_default_options [OF r3, of "JObject [(''runOnly'', JString ''wcag2a'')]"]
          C3_default_options [OF r4, of "JObject [(''runOnly'', JString ''wcag2a'')]"]
    by (simp add: is_object_def)
qed

text \<open>
  Claim C8, as stated, includes \<open>null\<close> among the inputs on which the normalizer returns
  a pair without failing. With \<open>null\<close> as first argument it throws.
\<close>

theorem C8_null_is_not_normalized:
  "normalizeRunParams JUndefined JNull JUndefined = Inl TypeError"
  by (simp add: isContext_def normalizeRunParams_def normalizeRunParams_resolve_def)

text \<open>
  Claim C8, amended: the parameter normalizer is a function of its two arguments and of
  the value read from the run-options registry, and it is total over every first argument
  other than \<open>null\<close> and every second argument (\<open>null\<close> included): the classification
  answers and a (context, options) pair is returned. With \<open>null\<close> as first argument the
  classification, and with it the normalizer, throws a \<^verbatim>\<open>TypeError\<close>.
\<close>

theorem C8_normalizer_total_except_null:
  "(a \<noteq> JNull \<longrightarrow> (\<exists>r. isContext a = Inr r)
        \<and> (\<exists>c opts. normalizeRunParams reg a b = Inr (c, opts)))
   \<and> (a = JNull \<longrightarrow> isContext a = Inl TypeError
        \<and> normalizeRunParams reg a b = Inl TypeError)"
proof (cases "a = JNull")
  case True
  then show ?thesis
    by (simp add: isContext_Null normalizeRunParams_def normalizeRunParams_resolve_def)
next
  case False
  then have "isContext a = Inr (context_shape a)" by (rule isContext_shape)
  with False show ?thesis
    by (simp add: normalizeRunParams_def normalizeRunParams_resolve_def)
qed

theorem C8_normalizer_total_except_null_witness:
  "(\<exists>c opts. normalizeRunParams JUndefined (JBoolean True) JNull = Inr (c, opts))
   \<and> (\<exists>c opts. normalizeRunParams JUndefined JUndefined JUndefined = Inr (c, opts))
   \<and> normalizeRunParams JUndefined JNull (JNumber 1) = Inl TypeError"
  using C8_normalizer_total_except_null [of "JBoolean True" JUndefined JNull]
        C8_normalizer_total_except_null [of JUndefined JUndefined JUndefined]
        C8_normalizer_total_except_null [of JNull JUndefined "JNumber 1"]
  by simp

text \<open>
  Claim C10: normalization is idempotent. Whenever \<^verbatim>\<open>_normalizeRunParams\<close> returns a
  (context, options) pair, applying it to that pair, with the same value in the
  run-options registry, returns the same pair.
\<close>

theorem C10_normalizeRunParams_idempotent:
  assumes "normalizeRunParams reg a b = Inr (c, opts)"
  shows "normalizeRunParams reg c opts = Inr (c, opts)"
proof -
  from assms obtain opts0 where
    r: "normalizeRunParams_resolve a b = Inr (c, opts0)" and
    d: "opts = normalizeRunParams_default reg opts0"
    using normalize_cases by blast
  from r have "isContext c = Inr True" by (rule resolve_gives_context)
  then have "normalizeRunParams_resolve c opts = Inr (c, opts)" by (rule resolve_context)
  then have "normalizeRunParams reg c opts = Inr (c, normalizeRunParams_default reg opts)"
    by (simp add: normalizeRunParams_def)
  with d show ?thesis by (simp add: default_idem)
qed

theorem C10_normalizeRunParams_idempotent_witness:
  "normalizeRunParams (JString ''odd'') (JObject [(''rules'', JObject [])]) (JNumber 2)
     = Inr (JString ''#ember-testing-container'', JObject [(''rules'', JObject [])])
   \<and> normalizeRunParams (JString ''odd'') (JString ''#ember-testing-container'')
        (JObject [(''rules'', JObject [])])
     = Inr (JString ''#ember-testing-container'', JObject [(''rules'', JObject [])])
   \<and> normalizeRunParams JUndefined JUndefined JUndefined
     = Inr (JString ''#ember-testing-container'', JObject [])
   \<and> normalizeRunParams JUndefined (JString ''#ember-testing-container'') (JObject [])
     = Inr (JString ''#ember-testing-container'', JObject [])"
proof -
  have h1: "normalizeRunParams (JString ''odd'') (JObject [(''rules'', JObject [])]) (JNumber 2)
     = Inr (JString ''#ember-testing-container'', JObject [(''rules'', JObject [])])"
    by (simp add: normalizeRunParams_def normalizeRunParams_resolve_def isContext_def
          normalizeRunParams_default_def default_selector_def)
  have h2: "normalizeRunParams JUndefined JUndefined JUndefined
     = Inr (JString ''#ember-testing-container'', JObject [])"
    by (simp add: normalizeRunParams_def normalizeRunParams_resolve_def isContext_def
          normalizeRunParams_default_def default_selector_def)
  show ?thesis
    using h1 h2 C10_normalizeRunParams_idempotent [OF h1]
          C10_normalizeRunParams_idempotent [OF h2]
    by simp
qed

section \<open>Translation of results\<close>

lemma processAxeResults_empty:
  "violations r = [] \<Longrightarrow> processAxeResults fmt tid r = Inr ()"
  by (simp add: processAxeResults_def)

lemma processAxeResults_nonempty:
  "violations r \<noteq> [] \<Longrightarrow>
   processAxeResults fmt tid r =
     Inl (ErrorMessage
       (''The page should have no accessibility violations. Violations:''
        @ [CHR 0x0A]
        @ join [CHR 0x0A] (map (\<lambda>v. fmt v (map html (nodes v))) (violations r))
        @ [CHR 0x0A]
        @ ''To rerun this specific failure, use the following query params: &''
        @ tid @ ''&enableA11yAudit=true''))"
  unfolding processAxeResults_def Let_def by simp

text \<open>
  Claim C4: the result translator raises an error if and only if the sequence of
  violations is not empty. With no violations it returns, with no value; with one or more
  it throws. It is a function of the result (and of the formatter and the test
  identifier it reads): it changes no state.
\<close>

theorem C4_processAxeResults_raises_iff_violations:
  "(processAxeResults fmt tid r = Inr ()) = (violations r = [])
   \<and> (\<exists>e. processAxeResults fmt tid r = Inl e) = (violations r \<noteq> [])"
proof (cases "violations r = []")
  case True
  then show ?thesis using processAxeResults_empty [of r fmt tid] by simp
next
  case False
  then show ?thesis using processAxeResults_nonempty [of r fmt tid] by simp
qed

lemma sublist_in_sixth: "sublist t (a @ b @ c @ d @ e @ t @ s)"
proof -
  have "a @ b @ c @ d @ e @ t @ s = (a @ b @ c @ d @ e) @ t @ s" by simp
  then show ?thesis using sublist_appendI [of t "a @ b @ c @ d @ e" s] by simp
qed

lemma sublist_after_amp: "sublist x (a @ b @ c @ d @ e @ t @ (k # x))"
proof -
  have "a @ b @ c @ d @ e @ t @ (k # x) = (a @ b @ c @ d @ e @ t @ [k]) @ x @ []" by simp
  then show ?thesis using sublist_appendI [of x "a @ b @ c @ d @ e @ t @ [k]" "[]"] by simp
qed


theorem C4_processAxeResults_raises_iff_violations_witness:
  "processAxeResults sample_format ''a1b2'' clean_results = Inr ()
   \<and> (\<exists>e. processAxeResults sample_format ''a1b2'' failing_results = Inl e)"
  using C4_processAxeResults_raises_iff_violations [of sample_format "''a1b2''" clean_results]
        C4_processAxeResults_raises_iff_violations [of sample_format "''a1b2''" failing_results]
  by (simp add: clean_results_def failing_results_def)

text \<open>
  Claim C5: for a result with \<open>N \<ge> 1\<close> violations, the message of the error thrown by the
  translator is the fixed header sentence, a line break, the \<open>N\<close> per-violation strings
  (each the formatter applied to the violation and to the list of the markup of its
  affected nodes) joined by line breaks, a line break, and the fixed footer, which
  contains the identifier of the current test and the literal text
  \<^verbatim>\<open>enableA11yAudit=true\<close>.
\<close>

theorem C5_violation_report_message:
  assumes "violations r \<noteq> []"
    and "entries = map (\<lambda>v. fmt v (map html (nodes v))) (violations r)"
    and "msg = ''The page should have no accessibility violations. Violations:''
        @ [CHR 0x0A] @ join [CHR 0x0A] entries @ [CHR 0x0A]
        @ ''To rerun this specific failure, use the following query params: &''
        @ tid @ ''&enableA11yAudit=true''"
  shows "processAxeResults fmt tid r = Inl (ErrorMessage msg)
     \<and> length entries = length (violations r)
     \<and> sublist tid msg
     \<and> sublist ''enableA11yAudit=true'' msg"
proof (intro conjI)
  show "processAxeResults fmt tid r = Inl (ErrorMessage msg)"
    unfolding assms(2,3) using assms(1) by (rule processAxeResults_nonempty)
  show "length entries = length (violations r)"
    unfolding assms(2) by (rule length_map)
  show "sublist tid msg"
    unfolding assms(3) by (rule sublist_in_sixth)
  show "sublist ''enableA11yAudit=true'' msg"
    unfolding assms(3) by (rule sublist_after_amp)
qed

theorem C5_violation_report_message_witness:
  "processAxeResults sample_format ''a1b2'' failing_results =
       Inl (ErrorMessage
         (''The page should have no accessibility violations. Violations:''
          @ [CHR 0x0A] @ ''[critical]: Images must have alt text <img>,<img id=x>''
          @ [CHR 0x0A] @ ''[serious]: Form elements must have labels <input>''
          @ [CHR 0x0A]
          @ ''To rerun this specific failure, use the following query params: &a1b2&enableA11yAudit=true''))
   \<and> length [''[critical]: Images must have alt text <img>,<img id=x>'',
              ''[serious]: Form elements must have labels <input>'']
       = length (violations failing_results)"
proof -
  have ne: "violations failing_results \<noteq> []"
    by (simp add: failing_results_def)
  have en: "[''[critical]: Images must have alt text <img>,<img id=x>'',
             ''[serious]: Form elements must have labels <input>'']
            = map (\<lambda>v. sample_format v (map html (nodes v))) (violations failing_results)"
    by (simp add: failing_results_def sample_violation_def label_violation_def
          sample_format_def)
  have ms: "''The page should have no accessibility violations. Violations:''
          @ [CHR 0x0A] @ ''[critical]: Images must have alt text <img>,<img id=x>''
          @ [CHR 0x0A] @ ''[serious]: Form elements must have labels <input>''
          @ [CHR 0x0A]
          @ ''To rerun this specific failure, use the following query params: &a1b2&enableA11yAudit=true''
        = ''The page should have no accessibility violations. Violations:''
          @ [CHR 0x0A]
          @ join [CHR 0x0A] [''[critical]: Images must have alt text <img>,<img id=x>'',
                             ''[serious]: Form elements must have labels <input>'']
          @ [CHR 0x0A]
          @ ''To rerun this specific failure, use the following query params: &''
          @ ''a1b2'' @ ''&enableA11yAudit=true''"
    by simp
  from C5_violation_report_message [where fmt = sample_format and r = failing_results, OF ne en ms]
  show ?thesis by (intro conjI) (elim conjE, assumption)+
qed

section \<open>The audit run\<close>

lemma a11yAudit_throws:
  assumes "normalizeRunParams reg (if c = JUndefined then JString default_selector else c) opt
             = Inl e"
  shows "a11yAudit fmt tid reg run c opt w = (Inl e, mark ''a11y_audit_start'' w)"
  using assms by (simp add: a11yAudit_def Let_def)

lemma a11yAudit_invoked:
  assumes "normalizeRunParams reg (if c = JUndefined then JString default_selector else c) opt
             = Inr (ctx, opts)"
  shows "a11yAudit fmt tid reg run c opt w =
     (let w2 = classList_add ''axe-running'' (mark ''a11y_audit_start'' w);
          w3 = w2\<lparr>calls := calls w2 @ [EngineRun ctx opts (classList w2)]\<rparr>;
          (p2, w4) =
             promise_then
               (\<lambda>result w. (processAxeResults fmt tid result,
                             w\<lparr>calls := calls w @ [ProcessAxeResults result]\<rparr>))
               (new_Promise (run ctx opts)) w3;
          (p3, w5) =
             promise_finally
               (\<lambda>w. markEndAndMeasure ''a11y_audit'' ''a11y_audit_start''
                       ''a11y_audit_end'' (classList_remove ''axe-running'' w))
               p2 w4
      in (Inr p3, w5))"
  using assms by (simp add: a11yAudit_def Let_def)

lemma a11yAudit_engine_error:
  assumes n: "normalizeRunParams reg (if c = JUndefined then JString default_selector else c) opt
             = Inr (ctx, opts)"
    and r: "new_Promise (run ctx opts) = Rejected e"
  shows "a11yAudit fmt tid reg run c opt w =
     (Inr (Rejected e),
      \<lparr>classList = removeAll ''axe-running'' (classList w),
       calls = calls w @ [Mark ''a11y_audit_start'', ClassListAdd ''axe-running'',
                 EngineRun ctx opts
                   (if ''axe-running'' \<in> set (classList w) then classList w
                    else classList w @ [''axe-running'']),
                 ClassListRemove ''axe-running'',
                 MarkEndAndMeasure ''a11y_audit'' ''a11y_audit_start'' ''a11y_audit_end'']\<rparr>)"
  unfolding a11yAudit_invoked [OF n] r
  by (simp add: Let_def promise_then_def promise_finally_def markEndAndMeasure_def
        classList_remove_def classList_add_def mark_def)

lemma a11yAudit_engine_result:
  assumes n: "normalizeRunParams reg (if c = JUndefined then JString default_selector else c) opt
             = Inr (ctx, opts)"
    and r: "new_Promise (run ctx opts) = Fulfilled res"
  shows "a11yAudit fmt tid reg run c opt w =
     (Inr (case processAxeResults fmt tid res of Inl e \<Rightarrow> Rejected e | Inr u \<Rightarrow> Fulfilled u),
      \<lparr>classList = removeAll ''axe-running'' (classList w),
       calls = calls w @ [Mark ''a11y_audit_start'', ClassListAdd ''axe-running'',
                 EngineRun ctx opts
                   (if ''axe-running'' \<in> set (classList w) then classList w
                    else classList w @ [''axe-running'']),
                 ProcessAxeResults res,
                 ClassListRemove ''axe-running'',
                 MarkEndAndMeasure ''a11y_audit'' ''a11y_audit_start'' ''a11y_audit_end'']\<rparr>)"
  unfolding a11yAudit_invoked [OF n] r
  by (cases "processAxeResults fmt tid res")
     (simp_all add: Let_def promise_then_def promise_finally_def markEndAndMeasure_def
        classList_remove_def classList_add_def mark_def)

lemma a11yAudit_engine_pending:
  assumes n: "normalizeRunParams reg (if c = JUndefined then JString default_selector else c) opt
             = Inr (ctx, opts)"
    and r: "new_Promise (run ctx opts) = Pending"
  shows "a11yAudit fmt tid reg run c opt w =
     (Inr Pending,
      \<lparr>classList = (if ''axe-running'' \<in> set (classList w) then classList w
                    else classList w @ [''axe-running'']),
       calls = calls w @ [Mark ''a11y_audit_start'', ClassListAdd ''axe-running'',
                 EngineRun ctx opts
                   (if ''axe-running'' \<in> set (classList w) then classList w
                    else classList w @ [''axe-running''])]\<rparr>)"
  unfolding a11yAudit_invoked [OF n] r
  by (simp add: Let_def promise_then_def promise_finally_def markEndAndMeasure_def
        classList_remove_def classList_add_def mark_def)

lemma new_Promise_cases:
  "(\<exists>res. new_Promise b = Fulfilled res) \<or> (\<exists>e. new_Promise b = Rejected e)
   \<or> new_Promise b = Pending"
  by (cases "new_Promise b") auto

lemma new_Promise_error:
  "truthy err \<Longrightarrow> new_Promise (Callback err res) = Rejected (Raised err)"
  by (simp add: new_Promise_def)



lemma normalize_no_arguments:
  "normalizeRunParams JUndefined
     (if JUndefined = JUndefined then JString default_selector else JUndefined) JUndefined
   = Inr (JString ''#ember-testing-container'', JObject [])"
  by (simp add: normalizeRunParams_def normalizeRunParams_resolve_def isContext_def
        normalizeRunParams_default_def default_selector_def)

lemma normalize_null_options:
  "normalizeRunParams JUndefined
     (if JString ''#main'' = JUndefined then JString default_selector else JString ''#main'')
     JNull
   = Inr (JString ''#main'', JNull)"
  by (simp add: normalizeRunParams_def normalizeRunParams_resolve_def isContext_def
        normalizeRunParams_default_def)


lemma audit_clean_run:
  "audit_clean =
     (Inr (Fulfilled ()),
      \<lparr>classList = [''ember-application''],
       calls = [Mark ''a11y_audit_start'', ClassListAdd ''axe-running'',
                EngineRun (JString ''#ember-testing-container'') (JObject [])
                  [''ember-application'', ''axe-running''],
                ProcessAxeResults clean_results,
                ClassListRemove ''axe-running'',
                MarkEndAndMeasure ''a11y_audit'' ''a11y_audit_start'' ''a11y_audit_end'']\<rparr>)"
proof -
  have r: "new_Promise (engine_always (Callback JNull clean_results)
             (JString ''#ember-testing-container'') (JObject [])) = Fulfilled clean_results"
    by (simp add: engine_always_def new_Promise_def)
  have t: "processAxeResults sample_format ''a1b2'' clean_results = Inr ()"
    by (simp add: processAxeResults_empty clean_results_def)
  show ?thesis
    unfolding audit_clean_def
      a11yAudit_engine_result [where run = "engine_always (Callback JNull clean_results)",
        OF normalize_no_arguments r] t
    by (simp add: idle_world_def)
qed



lemma audit_null_options_run:
  "audit_null_options =
     (Inr (Fulfilled ()),
      \<lparr>classList = [''ember-application''],
       calls = [Mark ''a11y_audit_start'', ClassListAdd ''axe-running'',
                EngineRun (JString ''#main'') JNull
                  [''ember-application'', ''axe-running''],
                ProcessAxeResults clean_results,
                ClassListRemove ''axe-running'',
                MarkEndAndMeasure ''a11y_audit'' ''a11y_audit_start'' ''a11y_audit_end'']\<rparr>)"
proof -
  have r: "new_Promise (engine_always (Callback JNull clean_results)
             (JString ''#main'') JNull) = Fulfilled clean_results"
    by (simp add: engine_always_def new_Promise_def)
  have t: "processAxeResults sample_format ''a1b2'' clean_results = Inr ()"
    by (simp add: processAxeResults_empty clean_results_def)
  show ?thesis
    unfolding audit_null_options_def
      a11yAudit_engine_result [where run = "engine_always (Callback JNull clean_results)",
        OF normalize_null_options r] t
    by (simp add: idle_world_def)
qed

text \<open>
  Claim C6: whenever the callback of the audit engine reports an error (its first
  argument is truthy), the promise returned by \<^verbatim>\<open>a11yAudit\<close> is rejected with exactly
  that error value, and the translator is not invoked: between the call of the engine and
  the cleanup there is no call at all.
\<close>
theorem C6_engine_error_rejects_unchanged:
  assumes n: "normalizeRunParams reg (if c = JUndefined then JString default_selector else c) opt
             = Inr (ctx, opts)"
    and r: "run ctx opts = Callback err res"
    and t: "truthy err"
    and a: "a11yAudit fmt tid reg run c opt w = (outcome, w')"
  shows "outcome = Inr (Rejected (Raised err))
     \<and> calls w' = calls w @ [Mark ''a11y_audit_start'', ClassListAdd ''axe-running'',
                 EngineRun ctx opts
                   (if ''axe-running'' \<in> set (classList w) then classList w
                    else classList w @ [''axe-running'']),
                 ClassListRemove ''axe-running'',
                 MarkEndAndMeasure ''a11y_audit'' ''a11y_audit_start'' ''a11y_audit_end'']
     \<and> (\<forall>x. ProcessAxeResults x \<notin> set (drop (length (calls w)) (calls w')))"
proof -
  have "new_Promise (run ctx opts) = Rejected (Raised err)"
    using r t by (simp add: new_Promise_error)
  from a11yAudit_engine_error [where run = run, OF n this, of fmt tid w] a show ?thesis
    by auto
qed

theorem C6_engine_error_rejects_unchanged_witness:
  "truthy engine_failure
   \<and> fst audit_engine_error = Inr (Rejected (Raised engine_failure))
   \<and> calls (snd audit_engine_error) =
       [Mark ''a11y_audit_start'', ClassListAdd ''axe-running'',
        EngineRun (JString ''#ember-testing-container'') (JObject [])
          [''ember-application'', ''axe-running''],
        ClassListRemove ''axe-running'',
        MarkEndAndMeasure ''a11y_audit'' ''a11y_audit_start'' ''a11y_audit_end'']"
proof -
  have r: "engine_always (Callback engine_failure clean_results)
             (JString ''#ember-testing-container'') (JObject [])
           = Callback engine_failure clean_results"
    by (simp add: engine_always_def)
  have t: "truthy engine_failure" by (simp add: engine_failure_def)
  have a: "a11yAudit sample_format ''a1b2'' JUndefined
             (engine_always (Callback engine_failure clean_results))
             JUndefined JUndefined idle_world
           = (fst audit_engine_error, snd audit_engine_error)"
    by (simp add: audit_engine_error_def)
  from C6_engine_error_rejects_unchanged [where run = "engine_always (Callback engine_failure clean_results)",
                OF normalize_no_arguments r t a]
  show ?thesis using t by (simp add: idle_world_def)
qed






lemma normalize_wellformed:
  assumes "normalizeRunParams reg a b = Inr (c, opts)"
  shows "isContext c = Inr True \<and> opts \<noteq> JUndefined
       \<and> (reg = JUndefined \<or> typeof reg = TObject \<longrightarrow> typeof opts = TObject)
       \<and> (plain_mapping opts \<or> opts = b \<or> opts = reg)"
proof -
  from assms obtain opts0 where
    r: "normalizeRunParams_resolve a b = Inr (c, opts0)" and
    d: "opts = normalizeRunParams_default reg opts0"
    using normalize_cases by blast
  have c: "isContext c = Inr True" using r by (rule resolve_gives_context)
  have u: "opts \<noteq> JUndefined" unfolding d by (rule default_not_undefined)
  have ty: "reg = JUndefined \<or> typeof reg = TObject \<longrightarrow> typeof opts = TObject"
    unfolding d by (cases reg) (auto simp: normalizeRunParams_default_def)
  from resolve_cases [OF r] have "plain_mapping opts \<or> opts = b \<or> opts = reg"
  proof
    assume "isContext a = Inr True \<and> c = a \<and> opts0 = b"
    then show ?thesis unfolding d by (auto simp: normalizeRunParams_default_def)
  next
    assume h: "isContext a = Inr False \<and> c = JString default_selector \<and> opts0 = a"
    then have "typeof a = TObject \<Longrightarrow> plain_mapping a"
      by (cases a) (auto simp: isContext_def)
    with h show ?thesis unfolding d by (auto simp: normalizeRunParams_default_def)
  qed
  with c u ty show ?thesis by blast
qed

lemma a11yAudit_new_calls:
  assumes a: "a11yAudit fmt tid reg run c opt w = (r, w')"
    and e: "EngineRun ctx opts cls \<in> set (drop (length (calls w)) (calls w'))"
  shows "normalizeRunParams reg (if c = JUndefined then JString default_selector else c) opt
           = Inr (ctx, opts) \<and> ''axe-running'' \<in> set cls"
proof (cases "normalizeRunParams reg
                (if c = JUndefined then JString default_selector else c) opt")
  case (Inl err)
  from a11yAudit_throws [OF Inl, of fmt tid run w] a e show ?thesis
    by (auto simp: mark_def)
next
  case (Inr pair)
  then obtain ctx0 opts0 where
    n: "normalizeRunParams reg (if c = JUndefined then JString default_selector else c) opt
          = Inr (ctx0, opts0)"
    by (cases pair) simp
  from new_Promise_cases [of "run ctx0 opts0"] show ?thesis
  proof (elim disjE exE)
    fix res assume r: "new_Promise (run ctx0 opts0) = Fulfilled res"
    from a11yAudit_engine_result [where run = run, OF n r, of fmt tid w] a e n
    show ?thesis by auto
  next
    fix err assume r: "new_Promise (run ctx0 opts0) = Rejected err"
    from a11yAudit_engine_error [where run = run, OF n r, of fmt tid w] a e n
    show ?thesis by auto
  next
    assume r: "new_Promise (run ctx0 opts0) = Pending"
    from a11yAudit_engine_pending [where run = run, OF n r, of fmt tid w] a e n
    show ?thesis by auto
  qed
qed

text \<open>
  Claim C9, as stated, says that the options handed to the engine are always a plain
  mapping and never \<open>null\<close>. With a selector and \<open>null\<close> as arguments the engine is
  invoked with \<open>null\<close> as options, since \<^verbatim>\<open>typeof null\<close> is \<open>object\<close>.
\<close>
theorem C9_null_options_reach_engine:
  "EngineRun (JString ''#main'') JNull [''ember-application'', ''axe-running'']
     \<in> set (calls (snd audit_null_options))
   \<and> \<not> plain_mapping JNull"
  by (simp add: audit_null_options_run)

text \<open>
  Claim C9, amended: for every invocation of \<^verbatim>\<open>a11yAudit\<close>, at the point the engine
  is invoked the context is classified as a context descriptor and the options value is
  never \<open>undefined\<close>; when the run-options registry holds nothing or an object, the
  options satisfy \<^verbatim>\<open>typeof options === 'object'\<close>. The options are a plain mapping
  unless they are the caller's second argument or the registered default handed on
  unchanged (which may be \<open>null\<close>, an array or a DOM object).
\<close>
theorem C9_engine_arguments_wellformed:
  assumes a: "a11yAudit fmt tid reg run c opt w = (r, w')"
    and e: "EngineRun ctx opts cls \<in> set (drop (length (calls w)) (calls w'))"
  shows "isContext ctx = Inr True \<and> opts \<noteq> JUndefined
       \<and> (reg = JUndefined \<or> typeof reg = TObject \<longrightarrow> typeof opts = TObject)
       \<and> (plain_mapping opts \<or> opts = opt \<or> opts = reg)"
proof -
  from a11yAudit_new_calls [OF a e]
  have "normalizeRunParams reg (if c = JUndefined then JString default_selector else c) opt
           = Inr (ctx, opts)" by simp
  then show ?thesis by (rule normalize_wellformed)
qed

theorem C9_engine_arguments_wellformed_witness:
  "EngineRun (JString ''#main'') JNull [''ember-application'', ''axe-running'']
     \<in> set (drop (length (calls idle_world)) (calls (snd audit_null_options)))
   \<and> isContext (JString ''#main'') = Inr True \<and> typeof JNull = TObject
   \<and> EngineRun (JString ''#ember-testing-container'') (JObject [])
        [''ember-application'', ''axe-running'']
     \<in> set (drop (length (calls idle_world)) (calls (snd audit_clean)))
   \<and> isContext (JString ''#ember-testing-container'') = Inr True
   \<and> plain_mapping (JObject [])"
proof -
  have a1: "a11yAudit sample_format ''a1b2'' JUndefined
              (engine_always (Callback JNull clean_results)) (JString ''#main'') JNull idle_world
            = (fst audit_null_options, snd audit_null_options)"
    by (simp add: audit_null_options_def)
  have e1: "EngineRun (JString ''#main'') JNull [''ember-application'', ''axe-running'']
     \<in> set (drop (length (calls idle_world)) (calls (snd audit_null_options)))"
    by (simp add: audit_null_options_run idle_world_def)
  have a2: "a11yAudit sample_format ''a1b2'' JUndefined
              (engine_always (Callback JNull clean_results)) JUndefined JUndefined idle_world
            = (fst audit_clean, snd audit_clean)"
    by (simp add: audit_clean_def)
  have e2: "EngineRun (JString ''#ember-testing-container'') (JObject [])
        [''ember-application'', ''axe-running'']
     \<in> set (drop (length (calls idle_world)) (calls (snd audit_clean)))"
    by (simp add: audit_clean_run idle_world_def)
  from C9_engine_arguments_wellformed [OF a1 e1] C9_engine_arguments_wellformed [OF a2 e2] e1 e2 show ?thesis by simp
qed

end
